theory Spec2Isabelle
  imports Main
begin

section \<open>Sliding-window limiter: \<open>check_verification_rate_limit\<close>\<close>

text \<open>
  The PL/pgSQL function \<open>check_verification_rate_limit(p_ip_address, p_verification_id)\<close>
  works on the table \<open>verification_rate_limits\<close>. The table carries the constraint
  \<open>UNIQUE (ip_address)\<close>, which the \<open>ON CONFLICT (ip_address)\<close> clauses of the function
  rely on, so it is a finite map from the address to its one row. Timestamps are
  integers counting milliseconds; \<open>now()\<close> is the transaction's start time and is the same
  at every place of one call, so it is an argument of the model.
\<close>

type_synonym timestamp = int

record rate_limit_row =
  rl_verification_id :: "string option"
  attempt_count :: int
  first_attempt_at :: timestamp
  last_attempt_at :: timestamp
  blocked_until :: "timestamp option"
  rl_created_at :: timestamp

type_synonym verification_rate_limits = "string \<rightharpoonup> rate_limit_row"

definition hour :: int where
  "hour = 3600000"

definition minute :: int where
  "minute = 60000"

text \<open>\<open>SELECT blocked_until INTO blocked_until_time ... WHERE ip_address = p_ip_address
  AND blocked_until > now() LIMIT 1\<close>: a \<open>NULL\<close> column never satisfies the comparison.\<close>

definition select_blocked_until ::
  "verification_rate_limits \<Rightarrow> string \<Rightarrow> timestamp \<Rightarrow> timestamp option" where
  "select_blocked_until tbl p_ip_address now =
     (case tbl p_ip_address of
        None \<Rightarrow> None
      | Some r \<Rightarrow>
          (case blocked_until r of
             None \<Rightarrow> None
           | Some b \<Rightarrow> if b > now then Some b else None))"

text \<open>\<open>SELECT COALESCE(SUM(attempt_count), 0) ... WHERE ip_address = p_ip_address
  AND last_attempt_at > window_start\<close>.\<close>

definition sum_recent_attempts ::
  "verification_rate_limits \<Rightarrow> string \<Rightarrow> timestamp \<Rightarrow> int" where
  "sum_recent_attempts tbl p_ip_address window_start =
     (case tbl p_ip_address of
        None \<Rightarrow> 0
      | Some r \<Rightarrow> if last_attempt_at r > window_start then attempt_count r else 0)"

text \<open>The blocking upsert: \<open>INSERT ... VALUES (ip, vid, now() + INTERVAL '1 hour', 1, now())
  ON CONFLICT (ip_address) DO UPDATE SET blocked_until = now() + INTERVAL '1 hour',
  last_attempt_at = now(), attempt_count = attempt_count + 1\<close>.\<close>

definition upsert_block ::
  "verification_rate_limits \<Rightarrow> string \<Rightarrow> string option \<Rightarrow> timestamp
     \<Rightarrow> verification_rate_limits" where
  "upsert_block tbl p_ip_address p_verification_id now =
     tbl(p_ip_address \<mapsto>
       (case tbl p_ip_address of
          None \<Rightarrow>
            \<lparr>rl_verification_id = p_verification_id, attempt_count = 1,
             first_attempt_at = now, last_attempt_at = now,
             blocked_until = Some (now + hour), rl_created_at = now\<rparr>
        | Some r \<Rightarrow>
            r\<lparr>blocked_until := Some (now + hour), last_attempt_at := now,
              attempt_count := attempt_count r + 1\<rparr>))"

text \<open>The logging upsert: \<open>INSERT ... VALUES (ip, vid, 1, now()) ON CONFLICT (ip_address)
  DO UPDATE SET attempt_count = attempt_count + 1, last_attempt_at = now(),
  verification_id = COALESCE(p_verification_id, verification_id)\<close>.\<close>

definition upsert_attempt ::
  "verification_rate_limits \<Rightarrow> string \<Rightarrow> string option \<Rightarrow> timestamp
     \<Rightarrow> verification_rate_limits" where
  "upsert_attempt tbl p_ip_address p_verification_id now =
     tbl(p_ip_address \<mapsto>
       (case tbl p_ip_address of
          None \<Rightarrow>
            \<lparr>rl_verification_id = p_verification_id, attempt_count = 1,
             first_attempt_at = now, last_attempt_at = now,
             blocked_until = None, rl_created_at = now\<rparr>
        | Some r \<Rightarrow>
            r\<lparr>attempt_count := attempt_count r + 1, last_attempt_at := now,
              rl_verification_id :=
                (case p_verification_id of
                   None \<Rightarrow> rl_verification_id r
                 | Some v \<Rightarrow> Some v)\<rparr>))"

text \<open>The function body. The result is the returned boolean (\<open>TRUE\<close> allows the request)
  and the table after the call.\<close>

definition check_verification_rate_limit ::
  "verification_rate_limits \<Rightarrow> string \<Rightarrow> string option \<Rightarrow> timestamp
     \<Rightarrow> bool \<times> verification_rate_limits" where
  "check_verification_rate_limit tbl p_ip_address p_verification_id now =
     (let window_start = now - hour;
          blocked_until_time = select_blocked_until tbl p_ip_address now
      in if blocked_until_time \<noteq> None then (False, tbl)
         else
           (let current_attempts = sum_recent_attempts tbl p_ip_address window_start
            in if current_attempts \<ge> 20
               then (False, upsert_block tbl p_ip_address p_verification_id now)
               else (True, upsert_attempt tbl p_ip_address p_verification_id now)))"

text \<open>A client calling the function at the given times, one call after the other; the
  results are listed in call order.\<close>

fun rate_limit_calls ::
  "verification_rate_limits \<Rightarrow> string \<Rightarrow> string option \<Rightarrow> timestamp list
     \<Rightarrow> bool list \<times> verification_rate_limits" where
  "rate_limit_calls tbl ip vid [] = ([], tbl)"
| "rate_limit_calls tbl ip vid (t # ts) =
     (let (ok, tbl') = check_verification_rate_limit tbl ip vid t;
          (oks, tbl'') = rate_limit_calls tbl' ip vid ts
      in (ok # oks, tbl''))"


section \<open>Tables of the relational store\<close>

text \<open>
  The rows carry the columns the handlers read or write. Identifiers (\<open>UUID\<close> columns) are
  strings. A table is the list of its rows in insertion order; \<open>INSERT\<close> appends.
\<close>

record institution =
  i_id :: string
  i_user_id :: string
  i_name :: string
  i_email :: string

record student =
  s_id :: string
  s_full_name :: string
  s_email :: string
  verification_count :: int
  verification_limit :: int
  institution_id :: "string option"
  s_updated_at :: timestamp

record transcript =
  t_id :: string
  t_student_id :: string
  file_url :: string
  file_hash :: string
  t_blockchain_tx :: "string option"
  verified :: bool
  issued_at :: timestamp
  t_verification_id :: string
  t_created_at :: timestamp

record verification_attempt =
  va_student_id :: "string option"
  va_verification_id :: string
  attempted_at :: timestamp
  success :: bool
  va_ip_address :: "string option"
  va_user_agent :: "string option"

record audit_log =
  al_id :: nat
  al_user_id :: "string option"
  al_action :: string
  al_resource_type :: string
  al_resource_id :: "string option"
  al_details :: "string option"
  al_severity :: string
  al_encrypted_data :: "string option"
  al_blockchain_tx :: "string option"
  al_ip_address :: "string option"
  al_user_agent :: "string option"
  al_created_at :: timestamp

record batch_metadata =
  md_eventCount :: nat
  md_firstEventTime :: timestamp
  md_lastEventTime :: timestamp

record audit_batch =
  batch_id :: string
  previous_hash :: string
  current_hash :: string
  merkle_root :: string
  event_count :: nat
  ab_metadata :: batch_metadata
  ab_blockchain_tx :: string
  ab_created_at :: timestamp

text \<open>
  Besides its tables the store has the input function of the column type \<open>INET\<close>
  (\<open>verification_attempts.ip_address\<close>): \<open>inet_accepts\<close> says which texts it takes as an
  address. A text it refuses makes the statement that carries it fail.
\<close>

record database =
  institutions :: "institution list"
  students :: "student list"
  transcripts :: "transcript list"
  verification_attempts :: "verification_attempt list"
  rate_limits :: verification_rate_limits
  audit_logs :: "audit_log list"
  audit_batches :: "audit_batch list"
  inet_accepts :: "string \<Rightarrow> bool"

text \<open>PostgREST's \<open>.single()\<close>: the data is the row when the query yields exactly one row,
  and \<open>null\<close> (with an error) otherwise.\<close>

fun single_row :: "'a list \<Rightarrow> 'a option" where
  "single_row [x] = Some x"
| "single_row _ = None"

text \<open>JavaScript's \<open>x || d\<close> on a number column: \<open>0\<close> is falsy, so the default is taken.\<close>

definition js_or :: "int \<Rightarrow> int \<Rightarrow> int" where
  "js_or x d = (if x = 0 then d else x)"

section \<open>Quota-enforcing verification: the \<open>verify-with-limit\<close> handler\<close>

text \<open>
  The request is the parsed JSON body (a body that does not parse ends in the handler's
  \<open>catch\<close> with status 500 and no effect). The handler reads the clock several times
  within one request (\<open>Date.now()\<close>, \<open>new Date()\<close>); the model takes one reading \<open>now\<close> for
  the whole request. The reads are modelled as succeeding. Of the writes, the inserts of
  attempts are refused as said below, and the update of \<open>students\<close>, whose error the
  handler inspects, is refused when the flag \<open>update_error\<close> is set; it then changes
  nothing.
\<close>

record verify_request =
  verificationId :: string
  ipAddress :: "string option"
  userAgent :: "string option"

record verified_body =
  vb_student_name :: string
  vb_student_email :: string
  vb_institution_name :: string
  vb_institution_email :: string
  vb_transcript_id :: string
  vb_fileUrl :: string
  vb_issuedAt :: timestamp
  vb_transcript_verified :: bool
  vb_blockchainTx :: "string option"
  vb_verificationCount :: int
  vb_verificationLimit :: int
  vb_remainingVerifications :: int

datatype verify_response =
    Verification_ID_required
  | Already_completed_recently
  | Invalid_verification_ID
  | Verification_limit_exceeded int int
  | Verified verified_body

fun verify_status :: "verify_response \<Rightarrow> nat" where
  "verify_status Verification_ID_required = 400"
| "verify_status Already_completed_recently = 429"
| "verify_status Invalid_verification_ID = 404"
| "verify_status (Verification_limit_exceeded c l) = 429"
| "verify_status (Verified b) = 200"

fun verify_verified :: "verify_response \<Rightarrow> bool option" where
  "verify_verified Verification_ID_required = None"
| "verify_verified Already_completed_recently = Some False"
| "verify_verified Invalid_verification_ID = Some False"
| "verify_verified (Verification_limit_exceeded c l) = Some False"
| "verify_verified (Verified b) = Some True"

text \<open>\<open>.from('verification_attempts').select(...).eq('verification_id', verificationId)
  .gte('attempted_at', Date.now() - 5000).limit(5)\<close>: the query has no \<open>ORDER BY\<close>, the rows
  come in scan order, which for this append-only table is insertion order.\<close>

definition recentAttempts :: "database \<Rightarrow> string \<Rightarrow> timestamp \<Rightarrow> verification_attempt list" where
  "recentAttempts db vid now =
     take 5 (filter (\<lambda>a. va_verification_id a = vid \<and> attempted_at a \<ge> now - 5000)
       (verification_attempts db))"

definition recentSuccess :: "database \<Rightarrow> string \<Rightarrow> timestamp \<Rightarrow> verification_attempt option" where
  "recentSuccess db vid now = find success (recentAttempts db vid now)"

text \<open>The transcript with its student and the student's institution, both joined
  \<open>!inner\<close> (\<open>student:students!inner(..., institution:institutions!inner(...))\<close>), read with
  \<open>.single()\<close>.\<close>

definition joined ::
  "institution list \<Rightarrow> student list \<Rightarrow> transcript
     \<Rightarrow> (transcript \<times> student \<times> institution) list" where
  "joined insts studs t =
     concat (map (\<lambda>s.
         map (\<lambda>i. (t, s, i)) (filter (\<lambda>i. institution_id s = Some (i_id i)) insts))
       (filter (\<lambda>s. s_id s = t_student_id t) studs))"

definition select_transcript ::
  "database \<Rightarrow> string \<Rightarrow> (transcript \<times> student \<times> institution) option" where
  "select_transcript db vid =
     single_row
       (concat (map (joined (institutions db) (students db))
          (filter (\<lambda>t. t_verification_id t = vid) (transcripts db))))"

text \<open>
  \<open>.from('verification_attempts').insert({...})\<close>. The table declares
  \<open>student_id UUID NOT NULL\<close> and \<open>ip_address INET\<close>: the store refuses a row without a
  student, and a row whose address text is not an \<open>INET\<close> value (an absent address is stored
  as \<open>NULL\<close>). The handlers never read the result of the insert, so a refused row is
  dropped without a trace.
\<close>

definition insert_accepted :: "database \<Rightarrow> verification_attempt \<Rightarrow> bool" where
  "insert_accepted db a \<longleftrightarrow>
     va_student_id a \<noteq> None
     \<and> (case va_ip_address a of None \<Rightarrow> True | Some ip \<Rightarrow> inet_accepts db ip)"

definition insert_attempt :: "database \<Rightarrow> verification_attempt \<Rightarrow> database" where
  "insert_attempt db a =
     (if insert_accepted db a
      then db\<lparr>verification_attempts := verification_attempts db @ [a]\<rparr>
      else db)"

text \<open>\<open>.from('students').update({verification_count: newCount, updated_at: ...})
  .eq('id', student.id)\<close>.\<close>

definition update_verification_count :: "database \<Rightarrow> string \<Rightarrow> int \<Rightarrow> timestamp \<Rightarrow> database" where
  "update_verification_count db sid newCount now =
     db\<lparr>students :=
        map (\<lambda>s. if s_id s = sid
                  then s\<lparr>verification_count := newCount, s_updated_at := now\<rparr> else s)
          (students db)\<rparr>"

text \<open>The handler. The result is the response, the store after the request and the
  messages written with \<open>console.error\<close>.\<close>

definition verify_with_limit ::
  "bool \<Rightarrow> database \<Rightarrow> verify_request \<Rightarrow> timestamp
     \<Rightarrow> verify_response \<times> database \<times> string list" where
  "verify_with_limit update_error db req now =
     (if verificationId req = [] then (Verification_ID_required, db, [])
      else
        (case recentSuccess db (verificationId req) now of
           Some a \<Rightarrow> (Already_completed_recently, db, [])
         | None \<Rightarrow>
             (case select_transcript db (verificationId req) of
                None \<Rightarrow>
                  (Invalid_verification_ID,
                   insert_attempt db
                     \<lparr>va_student_id = None, va_verification_id = verificationId req,
                      attempted_at = now, success = False,
                      va_ip_address = ipAddress req, va_user_agent = userAgent req\<rparr>,
                   [])
              | Some (tr, st, inst) \<Rightarrow>
                  (let verificationCount = js_or (verification_count st) 0;
                       verificationLimit = js_or (verification_limit st) 5
                   in if verificationCount \<ge> verificationLimit
                      then
                        (Verification_limit_exceeded verificationCount verificationLimit,
                         insert_attempt db
                           \<lparr>va_student_id = Some (s_id st),
                            va_verification_id = verificationId req,
                            attempted_at = now, success = False,
                            va_ip_address = ipAddress req, va_user_agent = userAgent req\<rparr>,
                         [])
                      else
                        (let newCount = verificationCount + 1;
                             db1 = (if update_error then db
                                    else update_verification_count db (s_id st) newCount now);
                             errs = (if update_error
                                     then [''Error updating verification count:''] else []);
                             db2 = insert_attempt db1
                               \<lparr>va_student_id = Some (s_id st),
                                va_verification_id = verificationId req,
                                attempted_at = now, success = True,
                                va_ip_address = ipAddress req,
                                va_user_agent = userAgent req\<rparr>
                         in (Verified
                               \<lparr>vb_student_name = s_full_name st,
                                vb_student_email = s_email st,
                                vb_institution_name = i_name inst,
                                vb_institution_email = i_email inst,
                                vb_transcript_id = t_id tr,
                                vb_fileUrl = file_url tr,
                                vb_issuedAt = issued_at tr,
                                vb_transcript_verified = verified tr,
                                vb_blockchainTx = t_blockchain_tx tr,
                                vb_verificationCount = verificationCount + 1,
                                vb_verificationLimit = verificationLimit,
                                vb_remainingVerifications =
                                  max 0 (verificationLimit - (verificationCount + 1))\<rparr>,
                             db2, errs))))))"

text \<open>The stored counter of a student, as a later request reads it.\<close>

definition stored_count :: "database \<Rightarrow> string \<Rightarrow> int option" where
  "stored_count db sid =
     map_option verification_count (find (\<lambda>s. s_id s = sid) (students db))"

section \<open>Administrator reset: the \<open>reset-verification-count\<close> handler\<close>

text \<open>
  \<open>getUser\<close> stands for \<open>supabaseClient.auth.getUser()\<close>: it maps the \<open>Authorization\<close> header to
  the user it authenticates, if any. The trigger \<open>update_students_updated_at\<close> stamps
  the updated row.
\<close>

record reset_student =
  rs_id :: string
  rs_name :: string
  rs_email :: string
  rs_verificationCount :: int
  rs_verificationLimit :: int

datatype reset_response =
    Missing_Authorization_header
  | Student_ID_required
  | Unauthorized
  | Institution_not_found
  | Student_not_found
  | Failed_to_reset
  | No_student_updated
  | Reset_success reset_student

fun reset_status :: "reset_response \<Rightarrow> nat" where
  "reset_status Missing_Authorization_header = 401"
| "reset_status Student_ID_required = 400"
| "reset_status Unauthorized = 401"
| "reset_status Institution_not_found = 404"
| "reset_status Student_not_found = 404"
| "reset_status Failed_to_reset = 500"
| "reset_status No_student_updated = 404"
| "reset_status (Reset_success s) = 200"

definition reset_rows :: "database \<Rightarrow> string \<Rightarrow> string \<Rightarrow> student list" where
  "reset_rows db studentId iid =
     filter (\<lambda>s. s_id s = studentId \<and> institution_id s = Some iid) (students db)"

definition update_reset :: "database \<Rightarrow> string \<Rightarrow> string \<Rightarrow> timestamp \<Rightarrow> database" where
  "update_reset db studentId iid now =
     db\<lparr>students :=
        map (\<lambda>s. if s_id s = studentId \<and> institution_id s = Some iid
                  then s\<lparr>verification_count := 0, s_updated_at := now\<rparr> else s)
          (students db)\<rparr>"

definition reset_verification_count ::
  "(string \<Rightarrow> string option) \<Rightarrow> bool \<Rightarrow> database \<Rightarrow> string option \<Rightarrow> string \<Rightarrow> timestamp
     \<Rightarrow> reset_response \<times> database" where
  "reset_verification_count getUser update_error db authHeader studentId now =
     (case authHeader of
        None \<Rightarrow> (Missing_Authorization_header, db)
      | Some h \<Rightarrow>
          if studentId = [] then (Student_ID_required, db)
          else
            (case getUser h of
               None \<Rightarrow> (Unauthorized, db)
             | Some uid \<Rightarrow>
                 (case single_row (filter (\<lambda>i. i_user_id i = uid) (institutions db)) of
                    None \<Rightarrow> (Institution_not_found, db)
                  | Some inst \<Rightarrow>
                      (case single_row (reset_rows db studentId (i_id inst)) of
                         None \<Rightarrow> (Student_not_found, db)
                       | Some st \<Rightarrow>
                           if update_error then (Failed_to_reset, db)
                           else
                             (let db1 = update_reset db studentId (i_id inst) now;
                                  updatedStudents = reset_rows db1 studentId (i_id inst)
                              in if updatedStudents = [] then (No_student_updated, db1)
                                 else
                                   (Reset_success
                                      \<lparr>rs_id = s_id st, rs_name = s_full_name st,
                                       rs_email = s_email st, rs_verificationCount = 0,
                                       rs_verificationLimit = verification_limit st\<rparr>,
                                    insert_attempt db1
                                      \<lparr>va_student_id = Some studentId,
                                       va_verification_id = ''RESET_BY_INSTITUTION'',
                                       attempted_at = now, success = True,
                                       va_ip_address = None,
                                       va_user_agent =
                                         Some (''Reset by institution '' @ i_id inst)\<rparr>))))))"

section \<open>JSON text\<close>

text \<open>\<open>JSON.stringify\<close> on the values the handlers serialise: strings (quoted, with the
  escapes of ECMA-262 \<open>QuoteJSONString\<close>), integers (decimal), booleans and \<open>null\<close>.\<close>

definition hex_digit :: "nat \<Rightarrow> char" where
  "hex_digit n = ''0123456789abcdef'' ! (n mod 16)"

definition json_escape_char :: "char \<Rightarrow> string" where
  "json_escape_char c =
     (if c = CHR ''\"'' then [CHR 0x5C, CHR ''\"'']
      else if c = CHR 0x5C then [CHR 0x5C, CHR 0x5C]
      else if c = CHR 0x08 then [CHR 0x5C, CHR ''b'']
      else if c = CHR 0x0C then [CHR 0x5C, CHR ''f'']
      else if c = CHR 0x0A then [CHR 0x5C, CHR ''n'']
      else if c = CHR 0x0D then [CHR 0x5C, CHR ''r'']
      else if c = CHR 0x09 then [CHR 0x5C, CHR ''t'']
      else if of_char c < (32 :: nat)
        then [CHR 0x5C, CHR ''u'', CHR ''0'', CHR ''0'',
              hex_digit (of_char c div 16), hex_digit (of_char c)]
      else [c])"

definition json_string :: "string \<Rightarrow> string" where
  "json_string s = [CHR ''\"''] @ concat (map json_escape_char s) @ [CHR ''\"'']"




definition json_bool :: "bool \<Rightarrow> string" where
  "json_bool b = (if b then ''true'' else ''false'')"


section \<open>Public verification: the \<open>verify-transcript\<close> handler\<close>

text \<open>
  The request body carries \<open>verification_id\<close> (\<open>None\<close> when absent or not a string) and
  an optional \<open>ip_address\<close>; the headers \<open>x-forwarded-for\<close> and \<open>x-real-ip\<close> may be
  present. Two remote calls can fail without the handler stopping: the rate-limit
  procedure (its \<open>data\<close> is then \<open>null\<close>) and \<open>log_audit_event\<close>; the flags
  \<open>rate_limit_error\<close> and \<open>log_error\<close> say that they did.
\<close>

record verification_request =
  vr_verification_id :: "string option"
  vr_ip_address :: "string option"
  x_forwarded_for :: "string option"
  x_real_ip :: "string option"

definition is_space :: "char \<Rightarrow> bool" where
  "is_space c \<longleftrightarrow> c \<in> set [CHR '' '', CHR 0x09, CHR 0x0A, CHR 0x0B, CHR 0x0C, CHR 0x0D]"

definition trim :: "string \<Rightarrow> string" where
  "trim s = rev (dropWhile is_space (rev (dropWhile is_space s)))"

definition is_digit :: "char \<Rightarrow> bool" where
  "is_digit c \<longleftrightarrow> c \<in> set ''0123456789''"

definition is_alnum :: "char \<Rightarrow> bool" where
  "is_alnum c \<longleftrightarrow>
     c \<in> set ''0123456789abcdefghijklmnopqrstuvwxyzABCDEFGHIJKLMNOPQRSTUVWXYZ''"

text \<open>The test \<open>/^VT-\d+-[a-z0-9]+$/i\<close>.\<close>

fun verificationIdRegex :: "string \<Rightarrow> bool" where
  "verificationIdRegex (v # t # d # rest) =
     ((v = CHR ''V'' \<or> v = CHR ''v'') \<and> (t = CHR ''T'' \<or> t = CHR ''t'') \<and> d = CHR ''-''
      \<and> takeWhile is_digit rest \<noteq> []
      \<and> (case dropWhile is_digit rest of
            [] \<Rightarrow> False
          | c # tail \<Rightarrow> c = CHR ''-'' \<and> tail \<noteq> [] \<and> list_all is_alnum tail))"
| "verificationIdRegex _ = False"

text \<open>\<open>a || b\<close> on strings that may be \<open>null\<close>: the empty string is falsy.\<close>

definition js_or_string :: "string option \<Rightarrow> string option \<Rightarrow> string option" where
  "js_or_string a b = (case a of None \<Rightarrow> b | Some s \<Rightarrow> if s = [] then b else Some s)"

definition clientIP :: "verification_request \<Rightarrow> string" where
  "clientIP req =
     (case js_or_string (vr_ip_address req)
             (js_or_string (map_option (takeWhile (\<lambda>c. c \<noteq> CHR '','')) (x_forwarded_for req))
                (js_or_string (x_real_ip req) (Some ''unknown''))) of
        None \<Rightarrow> ''unknown''
      | Some s \<Rightarrow> s)"

text \<open>The procedure \<open>log_audit_event(p_action, p_resource_type, p_resource_id, p_details)\<close>
  inserts one row into \<open>audit_logs\<close> with \<open>user_id = auth.uid()\<close>, which is \<open>NULL\<close> for the
  service role the handler uses. The generated key is modelled as the next free number.\<close>

definition fresh_id :: "audit_log list \<Rightarrow> nat" where
  "fresh_id logs = Suc (fold max (map al_id logs) 0)"

definition log_audit_event ::
  "database \<Rightarrow> string \<Rightarrow> string \<Rightarrow> string option \<Rightarrow> string option \<Rightarrow> timestamp \<Rightarrow> database" where
  "log_audit_event db p_action p_resource_type p_resource_id p_details now =
     db\<lparr>audit_logs := audit_logs db @
        [\<lparr>al_id = fresh_id (audit_logs db), al_user_id = None, al_action = p_action,
          al_resource_type = p_resource_type, al_resource_id = p_resource_id,
          al_details = p_details, al_severity = ''low'', al_encrypted_data = None,
          al_blockchain_tx = None, al_ip_address = None, al_user_agent = None,
          al_created_at = now\<rparr>]\<rparr>"

definition verification_details :: "string \<Rightarrow> string \<Rightarrow> bool \<Rightarrow> string" where
  "verification_details vid ip verified_status =
     ''{\"verification_id\":'' @ json_string vid @ '',\"ip_address\":'' @ json_string ip
       @ '',\"verified_status\":'' @ json_bool verified_status @ ''}''"

record verification_result =
  vres_status :: string
  vres_verificationId :: string
  vres_studentName :: string
  vres_institution :: string
  vres_issueDate :: timestamp
  vres_createdDate :: timestamp
  vres_blockchainTx :: string
  vres_fileHash :: string
  vres_transcriptId :: string

datatype transcript_response =
    Invalid_verification_ID_format
  | Verification_ID_wrong_format
  | Rate_limited
  | Database_error
  | Verification_ID_not_found
  | Verification_result verification_result

fun transcript_status :: "transcript_response \<Rightarrow> nat" where
  "transcript_status Invalid_verification_ID_format = 400"
| "transcript_status Verification_ID_wrong_format = 400"
| "transcript_status Rate_limited = 429"
| "transcript_status Database_error = 500"
| "transcript_status Verification_ID_not_found = 200"
| "transcript_status (Verification_result r) = 200"

text \<open>\<open>.from('students').select('full_name, institutions(name)').eq('id', ...)
  .maybeSingle()\<close>; the embedded institution is \<open>null\<close> when the student has none.\<close>

definition select_student :: "database \<Rightarrow> string \<Rightarrow> (string \<times> string option) option" where
  "select_student db sid =
     (case filter (\<lambda>s. s_id s = sid) (students db) of
        [s] \<Rightarrow>
          Some (s_full_name s,
                map_option i_name
                  (find (\<lambda>i. institution_id s = Some (i_id i)) (institutions db)))
      | _ \<Rightarrow> None)"

definition verify_transcript ::
  "bool \<Rightarrow> bool \<Rightarrow> database \<Rightarrow> verification_request \<Rightarrow> timestamp
     \<Rightarrow> transcript_response \<times> database" where
  "verify_transcript rate_limit_error log_error db req now =
     (case vr_verification_id req of
        None \<Rightarrow> (Invalid_verification_ID_format, db)
      | Some verification_id \<Rightarrow>
          if verification_id = [] then (Invalid_verification_ID_format, db)
          else if \<not> verificationIdRegex (trim verification_id)
          then (Verification_ID_wrong_format, db)
          else if rate_limit_error then (Rate_limited, db)
          else
            (let (rateLimitCheck, tbl) =
                   check_verification_rate_limit (rate_limits db) (clientIP req)
                     (Some verification_id) now;
                 db1 = db\<lparr>rate_limits := tbl\<rparr>
             in if \<not> rateLimitCheck then (Rate_limited, db1)
                else
                  (case filter (\<lambda>t. t_verification_id t = trim verification_id)
                          (transcripts db1) of
                     [] \<Rightarrow> (Verification_ID_not_found, db1)
                   | [tr] \<Rightarrow>
                       (let student = select_student db1 (t_student_id tr);
                            db2 = (if log_error then db1
                                   else log_audit_event db1 ''transcript_verification''
                                          ''transcript'' (Some (t_id tr))
                                          (Some (verification_details verification_id
                                                   (clientIP req) (verified tr)))
                                          now)
                        in (Verification_result
                              \<lparr>vres_status = (if verified tr then ''verified'' else ''pending''),
                               vres_verificationId = t_verification_id tr,
                               vres_studentName =
                                 (case js_or_string (map_option fst student)
                                         (Some ''Unknown Student'') of
                                    None \<Rightarrow> ''Unknown Student'' | Some n \<Rightarrow> n),
                               vres_institution =
                                 (case js_or_string
                                         (case student of None \<Rightarrow> None | Some (n, i) \<Rightarrow> i)
                                         (Some ''Unknown Institution'') of
                                    None \<Rightarrow> ''Unknown Institution'' | Some n \<Rightarrow> n),
                               vres_issueDate = issued_at tr,
                               vres_createdDate = t_created_at tr,
                               vres_blockchainTx =
                                 (case js_or_string (t_blockchain_tx tr) (Some ''Pending'') of
                                    None \<Rightarrow> ''Pending'' | Some n \<Rightarrow> n),
                               vres_fileHash =
                                 (case js_or_string (Some (file_hash tr)) (Some ''Processing'') of
                                    None \<Rightarrow> ''Processing'' | Some n \<Rightarrow> n),
                               vres_transcriptId = t_id tr\<rparr>,
                            db2))
                   | _ \<Rightarrow> (Database_error, db1))))"

text \<open>The handler found the transcript and answered with its verification result.\<close>

definition found_transcript :: "transcript_response \<Rightarrow> bool" where
  "found_transcript r = (case r of Verification_result v \<Rightarrow> True | _ \<Rightarrow> False)"

section \<open>Reading decimal text\<close>

text \<open>The value of a decimal numeral, the inverse of \<open>digits\<close>.\<close>

definition digit_val :: "char \<Rightarrow> nat" where
  "digit_val c = of_char c - 48"

definition undigits :: "string \<Rightarrow> nat" where
  "undigits s = foldl (\<lambda>acc c. acc * 10 + digit_val c) 0 s"

section \<open>Digests and errors of the runtime\<close>




section \<open>Merkle tree: the class \<open>MerkleTree\<close>\<close>








section \<open>Hash chain: \<open>createAuditChain\<close> and \<open>recordAuditBatch\<close>\<close>










section \<open>Sealing a batch: the \<open>process_batch\<close> action of \<open>blockchain-audit\<close>\<close>














section \<open>Sample data\<close>

text \<open>The dotted-decimal addresses of IP version 4, four numbers from 0 to 255, which
  \<open>INET\<close> accepts. The sample store takes these as addresses; the other texts that occur
  in the samples are no addresses of either version, and \<open>INET\<close> refuses them.\<close>

fun split_dots :: "string \<Rightarrow> string list" where
  "split_dots [] = [[]]"
| "split_dots (c # cs) =
     (if c = CHR ''.'' then [] # split_dots cs
      else (case split_dots cs of [] \<Rightarrow> [[c]] | x # xs \<Rightarrow> (c # x) # xs))"

definition octet :: "string \<Rightarrow> bool" where
  "octet s \<longleftrightarrow> s \<noteq> [] \<and> length s \<le> 3 \<and> list_all is_digit s \<and> undigits s \<le> 255"

definition dotted_quad :: "string \<Rightarrow> bool" where
  "dotted_quad s =
     (case split_dots s of
        [a, b, c, d] \<Rightarrow> octet a \<and> octet b \<and> octet c \<and> octet d
      | _ \<Rightarrow> False)"

text \<open>One institution, one of its students with an exhausted quota (5 of 5), and one
  transcript of that student; used to run the handlers on concrete requests.\<close>

definition example_institution :: institution where
  "example_institution =
     \<lparr>i_id = ''inst-1'', i_user_id = ''user-uni'', i_name = ''Example University'',
      i_email = ''registrar@example.edu''\<rparr>"

definition example_student :: student where
  "example_student =
     \<lparr>s_id = ''stud-1'', s_full_name = ''Ada Example'', s_email = ''ada@example.edu'',
      verification_count = 5, verification_limit = 5, institution_id = Some ''inst-1'',
      s_updated_at = 0\<rparr>"

definition example_transcript :: transcript where
  "example_transcript =
     \<lparr>t_id = ''tr-1'', t_student_id = ''stud-1'', file_url = ''files/tr-1.pdf'',
      file_hash = ''00'', t_blockchain_tx = None, verified = True, issued_at = 0,
      t_verification_id = ''VT-1700000000-abc123'', t_created_at = 0\<rparr>"

definition example_db :: database where
  "example_db =
     \<lparr>institutions = [example_institution], students = [example_student],
      transcripts = [example_transcript], verification_attempts = [],
      rate_limits = Map.empty, audit_logs = [], audit_batches = [],
      inet_accepts = dotted_quad\<rparr>"

definition example_request :: verify_request where
  "example_request =
     \<lparr>verificationId = ''VT-1700000000-abc123'', ipAddress = Some ''203.0.113.7'',
      userAgent = Some ''curl''\<rparr>"

definition example_getUser :: "string \<Rightarrow> string option" where
  "example_getUser h = (if h = ''Bearer uni'' then Some ''user-uni'' else None)"

text \<open>The same store with the student's quota untouched (0 of 5).\<close>

definition fresh_db :: database where
  "fresh_db = example_db\<lparr>students := [example_student\<lparr>verification_count := 0\<rparr>]\<rparr>"

text \<open>A client repeating one request at the given times, with no database fault.\<close>

fun verify_calls ::
  "database \<Rightarrow> verify_request \<Rightarrow> timestamp list \<Rightarrow> verify_response list \<times> database" where
  "verify_calls db req [] = ([], db)"
| "verify_calls db req (t # ts) =
     (let (r, db', errs) = verify_with_limit False db req t;
          (rs, db'') = verify_calls db' req ts
      in (r # rs, db''))"

text \<open>Twenty call times one minute apart, used to instantiate the limiter scenario.\<close>

definition example_times :: "timestamp list" where
  "example_times = map (\<lambda>k. int k * minute) [0..<20]"

definition example_verification_request :: verification_request where
  "example_verification_request =
     \<lparr>vr_verification_id = Some ''VT-1700000000-abc123'', vr_ip_address = Some ''203.0.113.7'',
      x_forwarded_for = None, x_real_ip = None\<rparr>"







section \<open>Properties of the sliding-window limiter\<close>

lemma rate_limit_calls_append:
  "rate_limit_calls tbl ip vid (xs @ ys) =
     (let (a, tbl') = rate_limit_calls tbl ip vid xs;
          (b, tbl'') = rate_limit_calls tbl' ip vid ys
      in (a @ b, tbl''))"
  by (induction xs arbitrary: tbl) (simp_all add: Let_def split: prod.splits)

lemma check_allowed_existing:
  assumes "tbl ip = Some r" "blocked_until r = None" "last_attempt_at r > t - hour"
    "attempt_count r < 20"
  shows "check_verification_rate_limit tbl ip vid t =
     (True, tbl(ip \<mapsto> r\<lparr>attempt_count := attempt_count r + 1, last_attempt_at := t,
        rl_verification_id := (case vid of None \<Rightarrow> rl_verification_id r | Some v \<Rightarrow> Some v)\<rparr>))"
  using assms
  by (simp add: check_verification_rate_limit_def select_blocked_until_def
      sum_recent_attempts_def upsert_attempt_def Let_def)

lemma check_allowed_fresh:
  assumes "tbl ip = None"
  shows "check_verification_rate_limit tbl ip vid t =
     (True, tbl(ip \<mapsto> \<lparr>rl_verification_id = vid, attempt_count = 1,
             first_attempt_at = t, last_attempt_at = t,
             blocked_until = None, rl_created_at = t\<rparr>))"
  using assms
  by (simp add: check_verification_rate_limit_def select_blocked_until_def
      sum_recent_attempts_def upsert_attempt_def Let_def)

lemma allowed_run:
  assumes "tbl ip = Some r" "blocked_until r = None" "attempt_count r = c"
    "last_attempt_at r = l" "sorted ts" "\<forall>t\<in>set ts. l \<le> t \<and> t < l0 + hour" "l0 \<le> l"
    "c + int (length ts) \<le> 20"
  shows "fst (rate_limit_calls tbl ip vid ts) = replicate (length ts) True \<and>
     (\<exists>r'. snd (rate_limit_calls tbl ip vid ts) ip = Some r' \<and> blocked_until r' = None \<and>
        attempt_count r' = c + int (length ts) \<and>
        last_attempt_at r' = (if ts = [] then l else last ts))"
  using assms
proof (induction ts arbitrary: tbl r c l)
  case Nil
  then show ?case by simp
next
  case (Cons t ts)
  let ?r = "r\<lparr>attempt_count := attempt_count r + 1, last_attempt_at := t,
        rl_verification_id := (case vid of None \<Rightarrow> rl_verification_id r | Some v \<Rightarrow> Some v)\<rparr>"
  let ?tbl = "tbl(ip \<mapsto> ?r)"
  from Cons.prems have t: "l \<le> t" "t < l0 + hour" by simp_all
  with Cons.prems have step: "check_verification_rate_limit tbl ip vid t = (True, ?tbl)"
    by (intro check_allowed_existing) auto
  have IH: "fst (rate_limit_calls ?tbl ip vid ts) = replicate (length ts) True \<and>
     (\<exists>r'. snd (rate_limit_calls ?tbl ip vid ts) ip = Some r' \<and> blocked_until r' = None \<and>
        attempt_count r' = (c + 1) + int (length ts) \<and>
        last_attempt_at r' = (if ts = [] then t else last ts))"
    using Cons.prems t by (intro Cons.IH[where r = ?r]) auto
  show ?case using step IH by (auto simp: Let_def split: prod.splits)
qed


lemma check_blocks_at_threshold:
  assumes "tbl ip = Some r" "blocked_until r = None" "last_attempt_at r > t - hour"
    "attempt_count r \<ge> 20"
  shows "check_verification_rate_limit tbl ip vid t =
     (False, tbl(ip \<mapsto> r\<lparr>blocked_until := Some (t + hour), last_attempt_at := t,
        attempt_count := attempt_count r + 1\<rparr>))"
  using assms
  by (simp add: check_verification_rate_limit_def select_blocked_until_def
      sum_recent_attempts_def upsert_block_def Let_def)

lemma check_allowed_after_block:
  assumes "tbl ip = Some r" "blocked_until r = Some b" "b \<le> t" "last_attempt_at r \<le> t - hour"
  shows "fst (check_verification_rate_limit tbl ip vid t)"
  using assms
  by (simp add: check_verification_rate_limit_def select_blocked_until_def
      sum_recent_attempts_def upsert_block_def Let_def)

text \<open>
  Claim C2, as amended. For a client key with no prior record, twenty calls at
  non-decreasing times are all allowed and bring the stored count to 20; a 21st call
  made less than one hour after the first is refused and sets \<open>blocked_until\<close> to exactly
  one hour after that call; a further call made one hour or more after the refused call
  (61 minutes after it, for instance) is allowed again. The block runs from the refused
  call, not from the first attempt.
\<close>

theorem twenty_allowed_then_blocked_one_hour:
  assumes fresh: "tbl ip = None"
    and len: "length ts = 20"
    and ord: "sorted (ts @ [t21])"
    and within: "t21 < hd ts + hour"
    and later: "t21 + hour \<le> t"
  shows "fst (rate_limit_calls tbl ip vid ts) = replicate 20 True
     \<and> map_option attempt_count (snd (rate_limit_calls tbl ip vid ts) ip) = Some 20
     \<and> fst (check_verification_rate_limit (snd (rate_limit_calls tbl ip vid ts)) ip vid t21)
         = False
     \<and> map_option blocked_until
         (snd (check_verification_rate_limit (snd (rate_limit_calls tbl ip vid ts)) ip vid t21)
            ip) = Some (Some (t21 + hour))
     \<and> fst (rate_limit_calls tbl ip vid (ts @ [t21, t])) = replicate 20 True @ [False, True]"
proof -
  from len obtain t1 rest where ts: "ts = t1 # rest" and lrest: "length rest = 19"
    by (cases ts) auto
  let ?r1 = "\<lparr>rl_verification_id = vid, attempt_count = 1,
             first_attempt_at = t1, last_attempt_at = t1,
             blocked_until = None, rl_created_at = t1\<rparr>"
  let ?tbl1 = "tbl(ip \<mapsto> ?r1)"
  have first: "check_verification_rate_limit tbl ip vid t1 = (True, ?tbl1)"
    using fresh by (rule check_allowed_fresh)
  from ord ts have srest: "sorted rest" and bounds: "\<forall>x\<in>set rest. t1 \<le> x \<and> x \<le> t21"
    and t1t21: "t1 \<le> t21"
    by (auto simp: sorted_append)
  with within ts have bnd: "\<forall>x\<in>set rest. t1 \<le> x \<and> x < t1 + hour" by auto
  have run: "fst (rate_limit_calls ?tbl1 ip vid rest) = replicate (length rest) True \<and>
     (\<exists>r'. snd (rate_limit_calls ?tbl1 ip vid rest) ip = Some r' \<and> blocked_until r' = None \<and>
        attempt_count r' = 1 + int (length rest) \<and>
        last_attempt_at r' = (if rest = [] then t1 else last rest))"
    using srest bnd lrest by (intro allowed_run[where r = ?r1 and l0 = t1]) auto
  from lrest have ne: "rest \<noteq> []" by auto
  from run obtain r20 where r20: "snd (rate_limit_calls ?tbl1 ip vid rest) ip = Some r20"
    "blocked_until r20 = None" "attempt_count r20 = 20" "last_attempt_at r20 = last rest"
    using lrest ne by auto
  let ?tbl20 = "snd (rate_limit_calls tbl ip vid ts)"
  have tbl20: "?tbl20 = snd (rate_limit_calls ?tbl1 ip vid rest)"
    using first ts by (simp add: Let_def case_prod_beta)
  have rep: "replicate 20 True = True # replicate 19 True"
    by (simp add: eval_nat_numeral)
  have oks20: "fst (rate_limit_calls tbl ip vid ts) = replicate 20 True"
    using first ts run lrest by (simp add: Let_def case_prod_beta rep)
  from ne have "last rest \<in> set rest" by simp
  with bnd bounds have l20: "t1 \<le> last rest" "last rest \<le> t21" by auto
  have blk: "check_verification_rate_limit ?tbl20 ip vid t21 =
     (False, ?tbl20(ip \<mapsto> r20\<lparr>blocked_until := Some (t21 + hour), last_attempt_at := t21,
        attempt_count := attempt_count r20 + 1\<rparr>))"
    using r20 l20 within ts unfolding tbl20[symmetric]
    by (intro check_blocks_at_threshold) auto
  let ?tbl21 = "snd (check_verification_rate_limit ?tbl20 ip vid t21)"
  have again: "fst (check_verification_rate_limit ?tbl21 ip vid t)"
    using later blk
    by (intro check_allowed_after_block[where b = "t21 + hour"
          and r = "r20\<lparr>blocked_until := Some (t21 + hour), last_attempt_at := t21,
        attempt_count := attempt_count r20 + 1\<rparr>"]) auto
  have all: "fst (rate_limit_calls tbl ip vid (ts @ [t21, t])) = replicate 20 True @ [False, True]"
    using oks20 blk again
    by (simp add: rate_limit_calls_append Let_def case_prod_beta)
  show ?thesis using oks20 r20 tbl20 blk all by simp
qed


text \<open>
  Claim C2 on twenty attempts one minute apart from the key \<open>203.0.113.7\<close>: the 21st
  call, twenty minutes after the first, is refused, and the call 61 minutes after the
  refused one is allowed.
\<close>

theorem twenty_allowed_then_blocked_one_hour_witness:
  "(Map.empty :: verification_rate_limits) ''203.0.113.7'' = None
   \<and> length example_times = 20
   \<and> sorted (example_times @ [20 * minute])
   \<and> 20 * minute < hd example_times + hour
   \<and> 20 * minute + hour \<le> 20 * minute + 61 * minute
   \<and> fst (rate_limit_calls Map.empty ''203.0.113.7'' None
        (example_times @ [20 * minute, 20 * minute + 61 * minute]))
     = replicate 20 True @ [False, True]"
proof -
  have s: "sorted (example_times @ [20 * minute])"
    by (simp add: example_times_def minute_def sorted_append upt_rec numeral_nat)
  have l: "length example_times = 20" by (simp add: example_times_def)
  have w: "20 * minute < hd example_times + hour"
    by (simp add: example_times_def minute_def hour_def upt_rec)
  have t: "20 * minute + hour \<le> 20 * minute + 61 * minute"
    by (simp add: minute_def hour_def)
  from twenty_allowed_then_blocked_one_hour[of Map.empty "''203.0.113.7''" example_times
      "20 * minute" "20 * minute + 61 * minute" None, OF _ l s w t]
  show ?thesis using s l w t by simp
qed

text \<open>
  Claim C2 as stated fails: with the twenty attempts one minute apart and the refused
  21st call twenty minutes after the first, the call made 61 minutes after the first
  attempt is still refused, because the block lasts until 80 minutes after the first.
\<close>

theorem allowed_61_minutes_after_first_counterexample:
  "fst (rate_limit_calls Map.empty ''203.0.113.7'' None
        (example_times @ [20 * minute, 61 * minute]))
     = replicate 20 True @ [False, False]"
  by (simp add: example_times_def minute_def hour_def upt_rec numeral_nat
      check_verification_rate_limit_def select_blocked_until_def
      sum_recent_attempts_def upsert_block_def upsert_attempt_def Let_def)
section \<open>Properties of the quota handlers\<close>

lemma single_row_Some: "single_row xs = Some x \<longleftrightarrow> xs = [x]"
  by (cases xs rule: single_row.cases) auto

lemma js_or_zero [simp]: "js_or x 0 = x"
  by (simp add: js_or_def)

lemma joined_map:
  assumes "\<And>s. s_id (f s) = s_id s" "\<And>s. institution_id (f s) = institution_id s"
  shows "joined is (map f ss) t = map (\<lambda>(t, s, i). (t, f s, i)) (joined is ss t)"
  using assms by (induction ss) (simp_all add: joined_def)

lemma select_transcript_joined:
  "select_transcript db vid =
     single_row (concat (map (joined (institutions db) (students db))
        (filter (\<lambda>t. t_verification_id t = vid) (transcripts db))))"
  by (simp add: select_transcript_def)

lemma select_transcript_map_students:
  assumes f: "\<And>s. s_id (f s) = s_id s" "\<And>s. institution_id (f s) = institution_id s"
    and sel: "select_transcript db vid = Some (tr, st, inst)"
    and db': "transcripts db' = transcripts db" "institutions db' = institutions db"
      "students db' = map f (students db)"
  shows "select_transcript db' vid = Some (tr, f st, inst)"
proof -
  have "concat (map (joined (institutions db) (map f (students db)))
        (filter (\<lambda>t. t_verification_id t = vid) (transcripts db)))
     = map (\<lambda>(t, s, i). (t, f s, i)) (concat (map (joined (institutions db) (students db))
        (filter (\<lambda>t. t_verification_id t = vid) (transcripts db))))"
    by (simp add: joined_map[OF f] map_concat comp_def cong: map_cong)
  with sel db' show ?thesis
    by (simp add: select_transcript_joined single_row_Some)
qed

lemma select_transcript_facts:
  assumes "select_transcript db vid = Some (tr, st, inst)"
  shows "st \<in> set (students db)" "institution_id st = Some (i_id inst)"
    "s_id st = t_student_id tr" "t_verification_id tr = vid" "inst \<in> set (institutions db)"
proof -
  from assms have "(tr, st, inst) \<in> set (concat (map (joined (institutions db) (students db))
        (filter (\<lambda>t. t_verification_id t = vid) (transcripts db))))"
    by (simp add: select_transcript_joined single_row_Some)
  then show "st \<in> set (students db)" "institution_id st = Some (i_id inst)"
    "s_id st = t_student_id tr" "t_verification_id tr = vid" "inst \<in> set (institutions db)"
    by (auto simp: joined_def)
qed

lemma filter_key_distinct:
  assumes "distinct (map k xs)" "x \<in> set xs"
  shows "filter (\<lambda>y. k y = k x) xs = [x]"
  using assms
proof (induction xs)
  case Nil
  then show ?case by simp
next
  case (Cons a xs)
  show ?case
  proof (cases "a = x")
    case True
    with Cons.prems have "\<forall>y\<in>set xs. k y \<noteq> k x" by (auto simp: image_iff)
    then have "filter (\<lambda>y. k y = k x) xs = []" by (simp add: filter_empty_conv)
    with True show ?thesis by simp
  next
    case False
    with Cons.prems have "x \<in> set xs" "k a \<noteq> k x" by (auto simp: image_iff)
    with Cons show ?thesis by simp
  qed
qed

lemma find_key_distinct:
  assumes "distinct (map k xs)" "x \<in> set xs"
  shows "find (\<lambda>y. k y = k x) xs = Some x"
  using assms
proof (induction xs)
  case Nil
  then show ?case by simp
next
  case (Cons a xs)
  then show ?case by (cases "a = x") (auto simp: image_iff)
qed

lemma find_map_key:
  assumes "\<And>s. k (f s) = k s"
  shows "find (\<lambda>y. k y = v) (map f xs) = map_option f (find (\<lambda>y. k y = v) xs)"
  using assms by (induction xs) simp_all


lemma recentSuccess_None:
  assumes "\<forall>a\<in>set (verification_attempts db).
      va_verification_id a = vid \<and> success a \<longrightarrow> attempted_at a < t - 5000"
  shows "recentSuccess db vid t = None"
proof -
  have "\<not> (\<exists>a\<in>set (recentAttempts db vid t). success a)"
  proof
    assume "\<exists>a\<in>set (recentAttempts db vid t). success a"
    then obtain a where a: "a \<in> set (recentAttempts db vid t)" "success a" by blast
    from a(1) have "a \<in> set (filter (\<lambda>a. va_verification_id a = vid \<and> attempted_at a \<ge> t - 5000)
       (verification_attempts db))"
      unfolding recentAttempts_def by (rule in_set_takeD)
    with a(2) assms show False by auto
  qed
  then show ?thesis by (simp add: recentSuccess_def find_None_iff)
qed

lemma reset_rows_unique:
  assumes "distinct (map s_id studs)" "st \<in> set studs" "institution_id st = Some iid"
    "students db = studs"
  shows "reset_rows db (s_id st) iid = [st]"
proof -
  have "filter (\<lambda>s. s_id s = s_id st \<and> institution_id s = Some iid) studs
      = filter (\<lambda>s. institution_id s = Some iid) (filter (\<lambda>s. s_id s = s_id st) studs)"
    by (simp add: conj_commute)
  also have "\<dots> = [st]"
    using assms by (simp add: filter_key_distinct[where k = s_id])
  finally show ?thesis using assms by (simp add: reset_rows_def)
qed

lemma insert_attempt_frame [simp]:
  "students (insert_attempt db a) = students db"
  "institutions (insert_attempt db a) = institutions db"
  "transcripts (insert_attempt db a) = transcripts db"
  "audit_logs (insert_attempt db a) = audit_logs db"
  "audit_batches (insert_attempt db a) = audit_batches db"
  "inet_accepts (insert_attempt db a) = inet_accepts db"
  by (simp_all add: insert_attempt_def)

lemma update_verification_count_frame [simp]:
  "inet_accepts (update_verification_count db sid n t) = inet_accepts db"
  "verification_attempts (update_verification_count db sid n t) = verification_attempts db"
  by (simp_all add: update_verification_count_def)

lemma insert_attempt_attempts:
  "verification_attempts (insert_attempt db a) =
     (if insert_accepted db a then verification_attempts db @ [a]
      else verification_attempts db)"
  by (simp add: insert_attempt_def)

text \<open>A row with a student is stored when its address is absent, or text that the store
  takes as an \<open>INET\<close> value.\<close>

lemma insert_accepted_student:
  "insert_accepted db
     \<lparr>va_student_id = Some sid, va_verification_id = vid, attempted_at = t, success = ok,
      va_ip_address = ip, va_user_agent = ua\<rparr>
   \<longleftrightarrow> (case ip of None \<Rightarrow> True | Some a \<Rightarrow> inet_accepts db a)"
  by (simp add: insert_accepted_def)

text \<open>
  Claim C1. A student whose quota is exhausted (count 5, limit 5) is refused: the
  response reports count 5 and limit 5 and the stored counter stays 5. After the owning
  institution resets the counter it is 0, and the next request is verified, reporting
  count 1 and limit 5 and storing 1. The hypotheses say that the verification id names
  a transcript of the student, that student ids are unique, that no successful attempt
  for the id lies in the five seconds before the requests, and that the reset comes
  from the owning institution.
\<close>

theorem exhausted_quota_reset_then_consume:
  assumes sel: "select_transcript db vid = Some (tr, st, inst)"
    and pk: "distinct (map s_id (students db))"
    and vid: "vid \<noteq> []" "vid \<noteq> ''RESET_BY_INSTITUTION''" "verificationId req = vid"
    and sid: "s_id st \<noteq> []"
    and used: "verification_count st = 5" and lim: "verification_limit st = 5"
    and old: "\<forall>a\<in>set (verification_attempts db).
        va_verification_id a = vid \<and> success a \<longrightarrow> attempted_at a < t1 - 5000"
    and times: "t1 \<le> t3"
    and auth: "getUser h = Some uid"
      "single_row (filter (\<lambda>i. i_user_id i = uid) (institutions db)) = Some inst"
  shows
    "(let (r1, db1, errs1) = verify_with_limit ue db req t1;
          (r2, db2) = reset_verification_count getUser False db1 (Some h) (s_id st) t2;
          (r3, db3, errs3) = verify_with_limit False db2 req t3
      in r1 = Verification_limit_exceeded 5 5
         \<and> students db1 = students db
         \<and> stored_count db1 (s_id st) = Some 5
         \<and> (\<exists>r. r2 = Reset_success r \<and> rs_verificationCount r = 0)
         \<and> stored_count db2 (s_id st) = Some 0
         \<and> (\<exists>b. r3 = Verified b \<and> vb_verificationCount b = 1 \<and> vb_verificationLimit b = 5)
         \<and> stored_count db3 (s_id st) = Some 1)"
proof -
  note facts = select_transcript_facts[OF sel]
  let ?a1 = "\<lparr>va_student_id = Some (s_id st), va_verification_id = vid,
       attempted_at = t1, success = False,
       va_ip_address = ipAddress req, va_user_agent = userAgent req\<rparr>"
  let ?db1 = "insert_attempt db ?a1"
  have s1: "verify_with_limit ue db req t1 = (Verification_limit_exceeded 5 5, ?db1, [])"
    using sel vid used lim recentSuccess_None[OF old]
    by (simp add: verify_with_limit_def js_or_def)
  have st1: "students ?db1 = students db" "institutions ?db1 = institutions db"
    "transcripts ?db1 = transcripts db"
    by (simp_all add: insert_attempt_def)
  have find_st: "find (\<lambda>s. s_id s = s_id st) (students db) = Some st"
    using pk facts(1) by (rule find_key_distinct)
  have c1: "stored_count ?db1 (s_id st) = Some 5"
    using find_st used by (simp add: stored_count_def st1)
  let ?f = "\<lambda>s. if s_id s = s_id st \<and> institution_id s = Some (i_id inst)
                  then s\<lparr>verification_count := 0, s_updated_at := t2\<rparr> else s"
  let ?db1' = "update_reset ?db1 (s_id st) (i_id inst) t2"
  let ?a2 = "\<lparr>va_student_id = Some (s_id st),
       va_verification_id = ''RESET_BY_INSTITUTION'',
       attempted_at = t2, success = True, va_ip_address = None,
       va_user_agent = Some (''Reset by institution '' @ i_id inst)\<rparr>"
  let ?db2 = "insert_attempt ?db1' ?a2"
  have rows: "reset_rows ?db1 (s_id st) (i_id inst) = [st]"
    using pk facts(1,2) st1(1) by (intro reset_rows_unique) auto
  have "st\<lparr>verification_count := 0, s_updated_at := t2\<rparr>
      \<in> set (reset_rows ?db1' (s_id st) (i_id inst))"
    using facts(1,2)
    by (force simp: reset_rows_def update_reset_def st1 image_iff intro!: bexI[of _ st])
  then have rows': "reset_rows ?db1' (s_id st) (i_id inst) \<noteq> []"
    by (cases "reset_rows ?db1' (s_id st) (i_id inst)") simp_all
  have s2: "reset_verification_count getUser False ?db1 (Some h) (s_id st) t2 =
      (Reset_success \<lparr>rs_id = s_id st, rs_name = s_full_name st,
           rs_email = s_email st, rs_verificationCount = 0,
           rs_verificationLimit = verification_limit st\<rparr>, ?db2)"
    using sid auth rows rows'
    by (simp add: reset_verification_count_def st1 Let_def)
  have st2: "students ?db2 = map ?f (students db)" "institutions ?db2 = institutions db"
    "transcripts ?db2 = transcripts db"
    by (simp_all add: insert_attempt_def update_reset_def)
  have fm: "find (\<lambda>s. s_id s = s_id st) (map ?f (students db))
      = map_option ?f (find (\<lambda>s. s_id s = s_id st) (students db))"
    by (rule find_map_key) simp
  have c2: "stored_count ?db2 (s_id st) = Some 0"
    unfolding stored_count_def st2(1) fm find_st using facts(2) by simp
  have sel2: "select_transcript ?db2 vid = Some (tr, ?f st, inst)"
    by (rule select_transcript_map_students[OF _ _ sel st2(3) st2(2) st2(1)]) simp_all
  have fst': "?f st = st\<lparr>verification_count := 0, s_updated_at := t2\<rparr>"
    using facts(2) by simp
  have old2: "\<forall>a\<in>set (verification_attempts ?db2).
        va_verification_id a = vid \<and> success a \<longrightarrow> attempted_at a < t3 - 5000"
    using old times vid(2)
    by (auto simp: insert_attempt_def update_reset_def split: if_splits)
  let ?g = "\<lambda>s. if s_id s = s_id st
                  then s\<lparr>verification_count := 1, s_updated_at := t3\<rparr> else s"
  let ?a3 = "\<lparr>va_student_id = Some (s_id st), va_verification_id = vid,
       attempted_at = t3, success = True,
       va_ip_address = ipAddress req, va_user_agent = userAgent req\<rparr>"
  let ?db3 = "insert_attempt (update_verification_count ?db2 (s_id st) 1 t3) ?a3"
  have s3: "\<exists>b. verify_with_limit False ?db2 req t3 = (Verified b, ?db3, [])
      \<and> vb_verificationCount b = 1 \<and> vb_verificationLimit b = 5"
    using sel2 vid lim recentSuccess_None[OF old2] unfolding fst'
    by (simp add: verify_with_limit_def js_or_def Let_def)
  have st3: "students ?db3 = map ?g (map ?f (students db))"
    by (simp add: insert_attempt_def update_verification_count_def update_reset_def)
  have gm: "find (\<lambda>s. s_id s = s_id st) (map ?g (map ?f (students db)))
      = map_option ?g (find (\<lambda>s. s_id s = s_id st) (map ?f (students db)))"
    by (rule find_map_key) simp
  have c3: "stored_count ?db3 (s_id st) = Some 1"
    unfolding stored_count_def st3 gm fm find_st by simp
  from s3 obtain b where b: "verify_with_limit False ?db2 req t3 = (Verified b, ?db3, [])"
    "vb_verificationCount b = 1" "vb_verificationLimit b = 5" by blast
  show ?thesis
    using s1 st1(1) c1 s2 c2 b c3 by (simp add: Let_def)
qed


lemmas example_defs = example_db_def example_institution_def example_student_def
  example_transcript_def example_request_def example_getUser_def fresh_db_def

lemma example_select:
  "select_transcript example_db ''VT-1700000000-abc123''
     = Some (example_transcript, example_student, example_institution)"
  by (simp add: select_transcript_def joined_def example_defs)

text \<open>
  Claim C1 on the sample store: refused at 5 of 5, reset, then verified as 1 of 5.
\<close>

theorem exhausted_quota_reset_then_consume_witness:
  "(let (r1, db1, errs1) = verify_with_limit False example_db example_request 1000;
        (r2, db2) = reset_verification_count example_getUser False db1 (Some ''Bearer uni'')
                      (s_id example_student) 2000;
        (r3, db3, errs3) = verify_with_limit False db2 example_request 3000
    in r1 = Verification_limit_exceeded 5 5
       \<and> students db1 = students example_db
       \<and> stored_count db1 (s_id example_student) = Some 5
       \<and> (\<exists>r. r2 = Reset_success r \<and> rs_verificationCount r = 0)
       \<and> stored_count db2 (s_id example_student) = Some 0
       \<and> (\<exists>b. r3 = Verified b \<and> vb_verificationCount b = 1 \<and> vb_verificationLimit b = 5)
       \<and> stored_count db3 (s_id example_student) = Some 1)"
proof (rule exhausted_quota_reset_then_consume[where tr = example_transcript
      and inst = example_institution and vid = "''VT-1700000000-abc123''"
      and uid = "''user-uni''"])
  show "select_transcript example_db ''VT-1700000000-abc123''
     = Some (example_transcript, example_student, example_institution)"
    by (rule example_select)
qed (simp_all add: example_defs)


lemma example_address_accepted: "dotted_quad ''203.0.113.7''"
  by (simp add: dotted_quad_def octet_def is_digit_def undigits_def digit_val_def)

lemma unknown_address_refused: "\<not> dotted_quad ''unknown''"
  by (simp add: dotted_quad_def)

text \<open>
  On the quota-consuming path, when the update of \<open>verification_count\<close> is refused the
  handler only writes the error to the console and still answers \<open>200\<close> with
  \<open>verified = true\<close> and the count plus one, while the stored count is unchanged. It
  still issues the insert of the successful attempt; the row is stored when the
  request carries no address or one that the store takes as an \<open>INET\<close> value.
\<close>

lemma update_error_reports_success:
  assumes sel: "select_transcript db (verificationId req) = Some (tr, st, inst)"
    and pk: "distinct (map s_id (students db))"
    and vid: "verificationId req \<noteq> []"
    and nodup: "recentSuccess db (verificationId req) now = None"
    and quota: "verification_count st < js_or (verification_limit st) 5"
  shows
    "(let (r, db', errs) = verify_with_limit True db req now
      in (\<exists>b. r = Verified b \<and> vb_verificationCount b = verification_count st + 1)
         \<and> verify_status r = 200 \<and> verify_verified r = Some True
         \<and> errs = [''Error updating verification count:'']
         \<and> students db' = students db
         \<and> stored_count db' (s_id st) = Some (verification_count st)
         \<and> verification_attempts db' =
              (if (case ipAddress req of None \<Rightarrow> True | Some a \<Rightarrow> inet_accepts db a)
               then verification_attempts db @
                 [\<lparr>va_student_id = Some (s_id st), va_verification_id = verificationId req,
                   attempted_at = now, success = True,
                   va_ip_address = ipAddress req, va_user_agent = userAgent req\<rparr>]
               else verification_attempts db))"
proof -
  note facts = select_transcript_facts[OF sel]
  have find_st: "find (\<lambda>s. s_id s = s_id st) (students db) = Some st"
    using pk facts(1) by (rule find_key_distinct)
  show ?thesis
    using sel vid nodup quota find_st
    by (simp add: verify_with_limit_def Let_def insert_attempt_attempts
        insert_accepted_student stored_count_def)
qed

text \<open>
  Claim C10 fails on the following request. The student has used 0 of 5
  verifications, the request carries the address text \<open>unknown\<close> (what the repository's
  verification page sends), and the update of \<open>verification_count\<close> is refused. The
  handler writes the error to the console and answers \<open>200\<close> with \<open>verified = true\<close> and
  the count 1 while the stored count stays 0, as the claim says; but the insert of the
  successful attempt is refused by the \<open>INET\<close> column, the handler does not read its
  result, and no attempt row is recorded.
\<close>

theorem update_error_unknown_address_no_attempt_row:
  "(let (r, db', errs) = verify_with_limit True fresh_db
                            (example_request\<lparr>ipAddress := Some ''unknown''\<rparr>) 1000
    in (\<exists>b. r = Verified b \<and> vb_verificationCount b = 1)
       \<and> verify_status r = 200 \<and> verify_verified r = Some True
       \<and> errs = [''Error updating verification count:'']
       \<and> stored_count db' ''stud-1'' = Some 0
       \<and> verification_attempts fresh_db = []
       \<and> verification_attempts db' = [])"
  by (simp add: example_defs verify_with_limit_def recentSuccess_def recentAttempts_def
      select_transcript_def joined_def insert_attempt_def insert_accepted_def
      unknown_address_refused stored_count_def js_or_def Let_def)

lemma verified_appends_success:
  assumes first: "verify_with_limit ue db req t = (Verified b, db1, errs)"
    and address: "case ipAddress req of None \<Rightarrow> True | Some a \<Rightarrow> inet_accepts db a"
  shows "verificationId req \<noteq> []"
    and "\<exists>sid. verification_attempts db1 = verification_attempts db @
          [\<lparr>va_student_id = sid, va_verification_id = verificationId req,
            attempted_at = t, success = True,
            va_ip_address = ipAddress req, va_user_agent = userAgent req\<rparr>]"
proof -
  show vid: "verificationId req \<noteq> []"
    using first by (cases "verificationId req = []") (simp_all add: verify_with_limit_def)
  from first vid have rs: "recentSuccess db (verificationId req) t = None"
    by (cases "recentSuccess db (verificationId req) t") (simp_all add: verify_with_limit_def)
  from first vid rs obtain tr st inst where
    sel: "select_transcript db (verificationId req) = Some (tr, st, inst)"
    by (cases "select_transcript db (verificationId req)")
       (auto simp: verify_with_limit_def)
  from first vid rs sel
  have lt: "\<not> js_or (verification_count st) 0 \<ge> js_or (verification_limit st) 5"
    by (cases "js_or (verification_count st) 0 \<ge> js_or (verification_limit st) 5")
       (simp_all add: verify_with_limit_def Let_def)
  from first vid rs sel lt
  have "db1 = insert_attempt
      (if ue then db
       else update_verification_count db (s_id st) (js_or (verification_count st) 0 + 1) t)
      \<lparr>va_student_id = Some (s_id st), va_verification_id = verificationId req,
        attempted_at = t, success = True,
        va_ip_address = ipAddress req, va_user_agent = userAgent req\<rparr>"
    by (auto simp: verify_with_limit_def Let_def)
  with address
  show "\<exists>sid. verification_attempts db1 = verification_attempts db @
          [\<lparr>va_student_id = sid, va_verification_id = verificationId req,
            attempted_at = t, success = True,
            va_ip_address = ipAddress req, va_user_agent = userAgent req\<rparr>]"
    by (simp add: insert_attempt_attempts insert_accepted_student split: option.splits)
qed

text \<open>
  The duplicate check does work when the success row was stored and fewer than five
  attempts for the id lie in the window before the repeat: the repeat within five
  seconds of a success gets the ``already completed'' answer and changes nothing.
\<close>

lemma duplicate_within_window_suppressed:
  assumes first: "verify_with_limit ue1 db req t1 = (Verified b, db1, errs)"
    and address: "case ipAddress req of None \<Rightarrow> True | Some a \<Rightarrow> inet_accepts db a"
    and window: "t2 - 5000 \<le> t1"
    and few: "length (filter (\<lambda>a. va_verification_id a = verificationId req
                \<and> attempted_at a \<ge> t2 - 5000) (verification_attempts db)) < 5"
  shows "verify_with_limit ue2 db1 req t2 = (Already_completed_recently, db1, [])"
proof -
  note v = verified_appends_success[OF first address]
  from v(2) obtain sid where
    att: "verification_attempts db1 = verification_attempts db @
          [\<lparr>va_student_id = sid, va_verification_id = verificationId req,
            attempted_at = t1, success = True,
            va_ip_address = ipAddress req, va_user_agent = userAgent req\<rparr>]"
    by blast
  have "\<exists>a\<in>set (recentAttempts db1 (verificationId req) t2). success a"
    using window few by (simp add: recentAttempts_def att)
  then obtain a where "recentSuccess db1 (verificationId req) t2 = Some a"
    by (cases "recentSuccess db1 (verificationId req) t2")
       (auto simp: recentSuccess_def find_None_iff)
  then show ?thesis using v(1)
    by (simp add: verify_with_limit_def)
qed


text \<open>
  Claim C4 fails on the following run. Five requests for one verification id are
  refused for the exhausted quota within five milliseconds, the institution resets the
  counter, a sixth request succeeds, and the same request is repeated ten milliseconds
  later. The recent-attempts query is cut to five rows, all of them refusals, so the
  repeat is not recognised as a duplicate: it succeeds again, a second successful row
  is written and the quota is incremented a second time.
\<close>

theorem duplicate_after_five_refusals_not_suppressed:
  "(let (rs, db1) = verify_calls example_db example_request [1000, 1001, 1002, 1003, 1004];
        (r2, db2) = reset_verification_count example_getUser False db1 (Some ''Bearer uni'')
                      ''stud-1'' 1010;
        (r3, db3, e3) = verify_with_limit False db2 example_request 1020;
        (r4, db4, e4) = verify_with_limit False db3 example_request 1030
    in rs = replicate 5 (Verification_limit_exceeded 5 5)
       \<and> reset_status r2 = 200
       \<and> verify_verified r3 = Some True
       \<and> verify_verified r4 = Some True
       \<and> r4 \<noteq> Already_completed_recently
       \<and> length (filter (\<lambda>a. va_verification_id a = ''VT-1700000000-abc123'' \<and> success a)
            (verification_attempts db4)) = 2
       \<and> stored_count db3 ''stud-1'' = Some 1
       \<and> stored_count db4 ''stud-1'' = Some 2)"
  by (simp add: example_defs verify_with_limit_def reset_verification_count_def
      recentSuccess_def recentAttempts_def select_transcript_def joined_def insert_attempt_def
      insert_accepted_def example_address_accepted
      update_verification_count_def update_reset_def reset_rows_def stored_count_def js_or_def
      Let_def eval_nat_numeral)
section \<open>Audit events written by the verification handlers\<close>

lemma verify_with_limit_audit_logs:
  "audit_logs (fst (snd (verify_with_limit ue db req now))) = audit_logs db"
  by (simp add: verify_with_limit_def insert_attempt_def update_verification_count_def
      Let_def split: option.splits prod.splits)

lemma verify_transcript_audit_logs:
  "\<exists>rows. audit_logs (snd (verify_transcript rle le db req now)) = audit_logs db @ rows
     \<and> map al_action rows =
         (if found_transcript (fst (verify_transcript rle le db req now)) \<and> \<not> le
          then [''transcript_verification''] else [])"
  by (simp add: verify_transcript_def found_transcript_def log_audit_event_def
      Let_def split: option.splits prod.splits list.splits)

text \<open>
  Claim C3, as amended. The quota-enforcing handler \<open>verify-with-limit\<close> writes no audit
  event on any path, whatever the outcome. The public handler \<open>verify-transcript\<close> writes
  exactly one audit event, with the action \<open>transcript_verification\<close>, when it has found
  the transcript and the logging call has not failed, and none on every other path
  (malformed id, rate limited, database error, id not found).
\<close>

theorem audit_events_per_call:
  "audit_logs (fst (snd (verify_with_limit ue db req now))) = audit_logs db
   \<and> (\<exists>rows. audit_logs (snd (verify_transcript rle le db vreq now)) = audit_logs db @ rows
        \<and> map al_action rows =
            (if found_transcript (fst (verify_transcript rle le db vreq now)) \<and> \<not> le
             then [''transcript_verification''] else []))"
  using verify_with_limit_audit_logs verify_transcript_audit_logs by simp

text \<open>
  Claim C3 on the sample store: a refused quota request leaves the audit log empty, and
  a public verification of the known transcript appends one event.
\<close>

theorem audit_events_per_call_witness:
  "audit_logs (fst (snd (verify_with_limit False example_db example_request 1000))) = []
   \<and> map al_action
        (audit_logs (snd (verify_transcript False False example_db
           example_verification_request 1000)))
       = [''transcript_verification'']"
proof -
  have found: "found_transcript
      (fst (verify_transcript False False example_db example_verification_request 1000))"
    by (simp add: verify_transcript_def found_transcript_def example_defs
        example_verification_request_def trim_def is_space_def is_digit_def is_alnum_def
        check_verification_rate_limit_def select_blocked_until_def sum_recent_attempts_def
        upsert_attempt_def clientIP_def js_or_string_def Let_def)
  have empty: "audit_logs example_db = []" by (simp add: example_defs)
  from audit_events_per_call[of False example_db example_request 1000 False False
      example_verification_request]
  show ?thesis using found empty by auto
qed

text \<open>
  Claim C3 as stated fails: a successful call of \<open>verify-with-limit\<close> writes its
  verification attempt and no audit event, so after one call the number of audit
  events has not grown by one.
\<close>

theorem one_audit_event_per_call_counterexample:
  "(let (r, db', errs) = verify_with_limit False fresh_db example_request 1000
    in verify_verified r = Some True
       \<and> length (verification_attempts db') = length (verification_attempts fresh_db) + 1
       \<and> length (audit_logs db') \<noteq> length (audit_logs fresh_db) + 1)"
  by (simp add: example_defs verify_with_limit_def
      recentSuccess_def recentAttempts_def select_transcript_def joined_def insert_attempt_def
      insert_accepted_def example_address_accepted
      update_verification_count_def js_or_def Let_def)
section \<open>Properties of the Merkle tree and the hash chain\<close>










subsection \<open>The block data determine the clock reading\<close>
















section \<open>Properties of batch sealing\<close>













end
